theory Spec2Isabelle
  imports
    Main
    "HOL-Library.Char_ord"
    "HOL-Library.List_Lexorder"
    "HOL-Library.Option_ord"
    "HOL-Library.Product_Lexorder"
begin

section \<open>Khumbuza: the task store and its bootstrap script\<close>

text \<open>
  The repository consists of two scripts. \<^verbatim>\<open>setup_db.py\<close> creates an SQLite database
  with one table; \<^verbatim>\<open>khumbuza.py\<close> offers the commands \<^verbatim>\<open>add\<close>, \<^verbatim>\<open>list\<close>,
  \<^verbatim>\<open>complete\<close> and \<^verbatim>\<open>remove\<close>, each of which opens a connection, runs one or two
  SQL statements and prints a message.

  The embedding keeps the structure of the scripts. The file system is a map from paths
  to databases, a database is a map from table names to tables, and a table has a list
  of column names and a list of rows. Every command takes the world and returns the
  world it leaves behind, together with either the exception that ended it or a value
  that stands for the message it printed. Strings are lists of 8-bit characters, so the
  model covers ASCII input.
\<close>

subsection \<open>Rows, tables, databases, the world\<close>

type_synonym path = string
type_synonym timestamp = string

text \<open>
  One row of the task table. The field \<open>id_col\<close> is the column \<^verbatim>\<open>id\<close>. SQL \<^verbatim>\<open>NULL\<close>
  is \<open>None\<close>. The column \<^verbatim>\<open>completed\<close> only ever holds 0 or 1 and is a \<open>bool\<close>.
  A table that lacks one of the columns ignores the corresponding field.
\<close>

record task_row =
  id_col :: int
  title :: string
  description :: "string option"
  due_date :: "string option"
  completed :: bool
  recurrence_type :: "string option"
  recurrence_interval :: int
  advance_notice_days :: int
  created_date :: timestamp
  completed_date :: "timestamp option"
  deleted_date :: "timestamp option"

text \<open>
  A table: its column names, its rows in insertion order, and the counter that SQLite
  keeps in \<^verbatim>\<open>sqlite_sequence\<close> for an \<^verbatim>\<open>AUTOINCREMENT\<close> key (the largest key ever
  handed out).
\<close>

record table =
  columns :: "string list"
  rows :: "task_row list"
  seq :: int

type_synonym database = "string \<rightharpoonup> table"

record world =
  files :: "path \<rightharpoonup> database"
  open_connections :: nat

datatype exn =
    SystemExit int
  | OperationalError string
  | OverflowError

subsection \<open>\<^verbatim>\<open>setup_db.py\<close>\<close>

text \<open>Line 11 of \<^verbatim>\<open>setup_db.py\<close>: the script's own \<^verbatim>\<open>DB_FILE\<close>.\<close>

definition SETUP_DB_FILE :: path where
  "SETUP_DB_FILE = ''/mnt/ssd/Applications/khumbuza/schedule.db''"

text \<open>The columns of the \<^verbatim>\<open>CREATE TABLE tasks\<close> statement, lines 26 to 37.\<close>

definition setup_columns :: "string list" where
  "setup_columns =
     [''id'', ''title'', ''description'', ''due_date'', ''completed'', ''recurrence_type'',
      ''recurrence_interval'', ''advance_notice_days'', ''created_date'', ''completed_date'']"

text \<open>
  \<^verbatim>\<open>sqlite3.connect\<close> creates the database when the file does not exist; it never fails in
  this model, which has neither directories nor permissions (so \<^verbatim>\<open>mkdir\<close> on line 17 is
  not visible here). The connection is the content of the database as the statements of
  the command see and change it; \<^verbatim>\<open>conn.commit()\<close> writes it back to the file, and a
  command that ends before the commit leaves the file as it was.
\<close>

type_synonym connection = database

definition sqlite3_connect :: "path \<Rightarrow> world \<Rightarrow> connection \<times> world" where
  "sqlite3_connect p w =
     (case files w p of
        None \<Rightarrow> (Map.empty, w\<lparr>files := (files w)(p \<mapsto> Map.empty),
                                open_connections := open_connections w + 1\<rparr>)
      | Some db \<Rightarrow> (db, w\<lparr>open_connections := open_connections w + 1\<rparr>))"

definition conn_commit :: "path \<Rightarrow> connection \<Rightarrow> world \<Rightarrow> world" where
  "conn_commit p conn w = w\<lparr>files := (files w)(p \<mapsto> conn)\<rparr>"

definition conn_close :: "world \<Rightarrow> world" where
  "conn_close w = w\<lparr>open_connections := open_connections w - 1\<rparr>"

text \<open>
  \<^verbatim>\<open>CREATE TABLE name (...)\<close> without \<^verbatim>\<open>IF NOT EXISTS\<close>: an error when the table is
  already there.
\<close>

definition create_table :: "string \<Rightarrow> string list \<Rightarrow> connection \<Rightarrow> exn + connection" where
  "create_table name cols conn =
     (case conn name of
        Some _ \<Rightarrow> Inl (OperationalError (''table '' @ name @ '' already exists''))
      | None \<Rightarrow> Inr (conn(name \<mapsto> \<lparr>columns = cols, rows = [], seq = 0\<rparr>)))"

text \<open>
  \<^verbatim>\<open>setup_database\<close>, lines 13 to 45. An exception of \<^verbatim>\<open>conn.execute\<close> leaves the function
  before \<^verbatim>\<open>conn.commit()\<close> and \<^verbatim>\<open>conn.close()\<close>.
\<close>

definition setup_database :: "world \<Rightarrow> (exn + unit) \<times> world" where
  "setup_database w =
     (case sqlite3_connect SETUP_DB_FILE w of
        (conn, w1) \<Rightarrow>
          (case create_table ''tasks'' setup_columns conn of
             Inl e \<Rightarrow> (Inl e, w1)
           | Inr conn' \<Rightarrow> (Inr (), conn_close (conn_commit SETUP_DB_FILE conn' w1))))"

definition empty_world :: world where
  "empty_world = \<lparr>files = Map.empty, open_connections = 0\<rparr>"

subsection \<open>Dates of the Python library\<close>

text \<open>
  A \<^verbatim>\<open>datetime.date\<close> is a year, a month and a day; the lexicographic order of the
  triple is the order of the calendar.
\<close>

type_synonym date = "int \<times> int \<times> int"

definition is_leap :: "int \<Rightarrow> bool" where
  "is_leap y = (y mod 4 = 0 \<and> (y mod 100 \<noteq> 0 \<or> y mod 400 = 0))"

definition days_in_month :: "int \<Rightarrow> int \<Rightarrow> int" where
  "days_in_month y m =
     (if m = 2 then (if is_leap y then 29 else 28)
      else if m = 4 \<or> m = 6 \<or> m = 9 \<or> m = 11 then 30 else 31)"

text \<open>The check of the \<^verbatim>\<open>date\<close> constructor: it raises \<^verbatim>\<open>ValueError\<close> otherwise.\<close>

definition valid_date :: "date \<Rightarrow> bool" where
  "valid_date dt =
     (case dt of (y, m, d) \<Rightarrow>
        1 \<le> y \<and> y \<le> 9999 \<and> 1 \<le> m \<and> m \<le> 12 \<and> 1 \<le> d \<and> d \<le> days_in_month y m)"

definition next_day :: "date \<Rightarrow> date" where
  "next_day dt =
     (case dt of (y, m, d) \<Rightarrow>
        if d < days_in_month y m then (y, m, d + 1)
        else if m < 12 then (y, m + 1, 1)
        else (y + 1, 1, 1))"

definition prev_day :: "date \<Rightarrow> date" where
  "prev_day dt =
     (case dt of (y, m, d) \<Rightarrow>
        if 1 < d then (y, m, d - 1)
        else if 1 < m then (y, m - 1, days_in_month y (m - 1))
        else (y - 1, 12, 31))"

text \<open>
  \<^verbatim>\<open>today + timedelta(days=n)\<close>: the date \<open>n\<close> days after \<open>today\<close> (before it, when \<open>n\<close>
  is negative), reached one calendar day at a time. \<^verbatim>\<open>timedelta\<close> raises
  \<^verbatim>\<open>OverflowError\<close> beyond 999999999 days, and the sum does when it leaves the years
  1 to 9999.
\<close>

definition date_add :: "date \<Rightarrow> int \<Rightarrow> exn + date" where
  "date_add today n =
     (if 999999999 < \<bar>n\<bar> then Inl OverflowError
      else
        (let r = (if 0 \<le> n then (next_day ^^ nat n) today else (prev_day ^^ nat (- n)) today)
         in if 1 \<le> fst r \<and> fst r \<le> 9999 then Inr r else Inl OverflowError))"

text \<open>\<^verbatim>\<open>date.isoformat()\<close>: \<^verbatim>\<open>"%04d-%02d-%02d"\<close>.\<close>

definition digit_char :: "int \<Rightarrow> char" where
  "digit_char n = char_of (48 + n)"

definition pad2 :: "int \<Rightarrow> string" where
  "pad2 n = [digit_char (n div 10), digit_char (n mod 10)]"

definition pad4 :: "int \<Rightarrow> string" where
  "pad4 n = [digit_char (n div 1000), digit_char (n div 100 mod 10),
             digit_char (n div 10 mod 10), digit_char (n mod 10)]"

definition isoformat :: "date \<Rightarrow> string" where
  "isoformat dt = (case dt of (y, m, d) \<Rightarrow> pad4 y @ ''-'' @ pad2 m @ ''-'' @ pad2 d)"

subsection \<open>\<^verbatim>\<open>datetime.strptime(s, '%Y-%m-%d')\<close>\<close>

text \<open>
  The library compiles the format to the regular expression
  \<^verbatim>\<open>(\d\d\d\d)-(1[0-2]|0[1-9]|[1-9])-(3[0-1]|[1-2]\d|0[1-9]|[1-9]| [1-9])\<close>,
  matches it at the start of the string, raises \<^verbatim>\<open>ValueError\<close> when it does not match or
  when the match does not reach the end of the string, and then builds the date, which
  raises \<^verbatim>\<open>ValueError\<close> for a day that the month does not have and for the year 0.

  Each piece of the expression returns its ways to match at the start of a string, in
  the order in which a backtracking matcher tries them; the match is the first way
  through the whole expression.
\<close>

definition is_digit :: "char \<Rightarrow> bool" where
  "is_digit c = (CHR ''0'' \<le> c \<and> c \<le> CHR ''9'')"

definition digit_val :: "char \<Rightarrow> int" where
  "digit_val c = of_char c - 48"

definition re_lit :: "char \<Rightarrow> string \<Rightarrow> string list" where
  "re_lit c s = (case s of a # rest \<Rightarrow> if a = c then [rest] else [] | [] \<Rightarrow> [])"

definition re_Y :: "string \<Rightarrow> (int \<times> string) list" where
  "re_Y s =
     (case s of
        a # b # c # d # rest \<Rightarrow>
          if is_digit a \<and> is_digit b \<and> is_digit c \<and> is_digit d
          then [(1000 * digit_val a + 100 * digit_val b + 10 * digit_val c + digit_val d, rest)]
          else []
      | _ \<Rightarrow> [])"

definition re_two :: "(char \<Rightarrow> bool) \<Rightarrow> (char \<Rightarrow> bool) \<Rightarrow> string \<Rightarrow> (int \<times> string) list" where
  "re_two p q s =
     (case s of
        a # b # rest \<Rightarrow> if p a \<and> q b then [(10 * digit_val a + digit_val b, rest)] else []
      | _ \<Rightarrow> [])"

definition re_one :: "(char \<Rightarrow> bool) \<Rightarrow> string \<Rightarrow> (int \<times> string) list" where
  "re_one p s = (case s of a # rest \<Rightarrow> if p a then [(digit_val a, rest)] else [] | [] \<Rightarrow> [])"

definition between :: "char \<Rightarrow> char \<Rightarrow> char \<Rightarrow> bool" where
  "between lo hi c = (lo \<le> c \<and> c \<le> hi)"

definition re_m :: "string \<Rightarrow> (int \<times> string) list" where
  "re_m s =
     re_two (\<lambda>c. c = CHR ''1'') (between CHR ''0'' CHR ''2'') s
     @ re_two (\<lambda>c. c = CHR ''0'') (between CHR ''1'' CHR ''9'') s
     @ re_one (between CHR ''1'' CHR ''9'') s"

definition re_d :: "string \<Rightarrow> (int \<times> string) list" where
  "re_d s =
     re_two (\<lambda>c. c = CHR ''3'') (between CHR ''0'' CHR ''1'') s
     @ re_two (between CHR ''1'' CHR ''2'') is_digit s
     @ re_two (\<lambda>c. c = CHR ''0'') (between CHR ''1'' CHR ''9'') s
     @ re_one (between CHR ''1'' CHR ''9'') s
     @ concat (map (re_one (between CHR ''1'' CHR ''9'')) (re_lit CHR '' '' s))"

definition re_Ymd :: "string \<Rightarrow> (date \<times> string) list" where
  "re_Ymd s =
     [((y, m, d), s5).
        (y, s1) \<leftarrow> re_Y s, s2 \<leftarrow> re_lit CHR ''-'' s1,
        (m, s3) \<leftarrow> re_m s2, s4 \<leftarrow> re_lit CHR ''-'' s3,
        (d, s5) \<leftarrow> re_d s4]"

text \<open>\<open>None\<close> stands for \<^verbatim>\<open>ValueError\<close>.\<close>

definition strptime :: "string \<Rightarrow> date option" where
  "strptime s =
     (case re_Ymd s of
        [] \<Rightarrow> None
      | (dt, rest) # _ \<Rightarrow> if rest \<noteq> [] then None else if valid_date dt then Some dt else None)"

subsection \<open>\<^verbatim>\<open>khumbuza.py\<close>: connection and statements\<close>

text \<open>Line 14 of \<^verbatim>\<open>khumbuza.py\<close>.\<close>

definition DB_FILE :: path where
  "DB_FILE = ''/mnt/ssd/Applications/khumbuza/tasks.db''"

text \<open>\<^verbatim>\<open>get_db_connection\<close>, lines 26 to 33: \<^verbatim>\<open>exit(1)\<close> when the file does not exist.\<close>

definition get_db_connection :: "world \<Rightarrow> exn + connection \<times> world" where
  "get_db_connection w =
     (if files w DB_FILE = None then Inl (SystemExit 1)
      else Inr (sqlite3_connect DB_FILE w))"

text \<open>
  SQLite compiles a statement before it runs it: the table must exist and must have
  every column that the statement names.
\<close>

definition prepare :: "string \<Rightarrow> string list \<Rightarrow> connection \<Rightarrow> exn + table" where
  "prepare name cols conn =
     (case conn name of
        None \<Rightarrow> Inl (OperationalError (''no such table: '' @ name))
      | Some t \<Rightarrow>
          (case filter (\<lambda>c. c \<notin> set (columns t)) cols of
             [] \<Rightarrow> Inr t
           | c # _ \<Rightarrow> Inl (OperationalError (''no such column: '' @ c))))"

text \<open>
  An \<^verbatim>\<open>INSERT\<close> that names a column the table does not have fails with another
  message.
\<close>

definition prepare_insert :: "string \<Rightarrow> string list \<Rightarrow> connection \<Rightarrow> exn + table" where
  "prepare_insert name cols conn =
     (case conn name of
        None \<Rightarrow> Inl (OperationalError (''no such table: '' @ name))
      | Some t \<Rightarrow>
          (case filter (\<lambda>c. c \<notin> set (columns t)) cols of
             [] \<Rightarrow> Inr t
           | c # _ \<Rightarrow>
               Inl (OperationalError (''table '' @ name @ '' has no column named '' @ c))))"

text \<open>
  An SQLite integer is a signed 64-bit integer. After the statement is compiled its
  parameters are bound, and \<^verbatim>\<open>sqlite3\<close> raises \<^verbatim>\<open>OverflowError\<close> for a Python integer
  outside this range.
\<close>

definition sqlite_integer :: "int \<Rightarrow> bool" where
  "sqlite_integer n = (- 9223372036854775808 \<le> n \<and> n \<le> 9223372036854775807)"

text \<open>
  Modelled from the spec: the declaration of the table \<^verbatim>\<open>task\<close> is not in the repository
  (\<^verbatim>\<open>setup_db.py\<close> declares another table, \<^verbatim>\<open>tasks\<close>), so the values of the columns that
  an \<^verbatim>\<open>INSERT\<close> does not set are those of section 3 of the specification: \<^verbatim>\<open>completed\<close>
  false, \<^verbatim>\<open>recurrence_interval\<close> 1, \<^verbatim>\<open>advance_notice_days\<close> 0, \<^verbatim>\<open>created_date\<close> the
  current time, every other column absent. They agree with the defaults that
  \<^verbatim>\<open>setup_db.py\<close> gives the columns it declares. The key and the title have no default:
  every \<^verbatim>\<open>INSERT\<close> sets them.
\<close>

definition default_row :: "timestamp \<Rightarrow> task_row" where
  "default_row now =
     \<lparr>id_col = 0, title = [], description = None, due_date = None, completed = False,
      recurrence_type = None, recurrence_interval = 1, advance_notice_days = 0,
      created_date = now, completed_date = None, deleted_date = None\<rparr>"

text \<open>
  The \<^verbatim>\<open>INSERT\<close> of lines 88 to 91: it sets five columns, and the key is assigned. Of
  its parameters only \<^verbatim>\<open>advance_notice_days\<close> is an integer. The new key is one more
  than the largest key the table has had; SQLite refuses the insert when that key is
  the largest 64-bit integer.
\<close>

definition insert_task ::
  "string \<Rightarrow> string option \<Rightarrow> string option \<Rightarrow> string option \<Rightarrow> int \<Rightarrow> timestamp \<Rightarrow>
   connection \<Rightarrow> exn + int \<times> connection" where
  "insert_task ttl desc due rec adv now conn =
     (case prepare_insert ''task''
             [''title'', ''description'', ''due_date'', ''recurrence_type'', ''advance_notice_days'']
             conn of
        Inl e \<Rightarrow> Inl e
      | Inr t \<Rightarrow>
          (let top = fold max (map id_col (rows t)) (seq t) in
           if \<not> sqlite_integer adv then Inl OverflowError
           else if 9223372036854775807 \<le> top
           then Inl (OperationalError ''database or disk is full'')
           else
             Inr (top + 1,
                  conn(''task'' \<mapsto>
                    t\<lparr>rows := rows t @
                         [(default_row now)
                            \<lparr>id_col := top + 1, title := ttl, description := desc,
                             due_date := due, recurrence_type := rec,
                             advance_notice_days := adv\<rparr>],
                      seq := top + 1\<rparr>))))"

text \<open>
  The two queries of \<^verbatim>\<open>list\<close>, lines 108 to 124. \<^verbatim>\<open>ORDER BY due_date ASC, id ASC\<close>
  puts \<^verbatim>\<open>NULL\<close> first and compares texts byte by byte, a proper prefix before the
  longer text: the order of \<open>string option \<times> int\<close>. The comparison \<^verbatim>\<open>due_date <= ?\<close> is
  the same comparison of texts.
\<close>

type_synonym summary = "int \<times> string \<times> string option \<times> string option"

definition summary_of :: "task_row \<Rightarrow> summary" where
  "summary_of r = (id_col r, title r, due_date r, description r)"

definition order_key :: "task_row \<Rightarrow> string option \<times> int" where
  "order_key r = (due_date r, id_col r)"

definition select_incomplete :: "connection \<Rightarrow> exn + summary list" where
  "select_incomplete conn =
     (case prepare ''task'' [''id'', ''title'', ''due_date'', ''description'', ''completed''] conn of
        Inl e \<Rightarrow> Inl e
      | Inr t \<Rightarrow>
          Inr (map summary_of (sort_key order_key (filter (\<lambda>r. \<not> completed r) (rows t)))))"

definition select_incomplete_due :: "string \<Rightarrow> connection \<Rightarrow> exn + summary list" where
  "select_incomplete_due cutoff_date conn =
     (case prepare ''task'' [''id'', ''title'', ''due_date'', ''description'', ''completed''] conn of
        Inl e \<Rightarrow> Inl e
      | Inr t \<Rightarrow>
          Inr (map summary_of (sort_key order_key
                 (filter (\<lambda>r. \<not> completed r \<and>
                               (case due_date r of None \<Rightarrow> True | Some s \<Rightarrow> s \<le> cutoff_date))
                    (rows t)))))"

text \<open>
  The \<^verbatim>\<open>SELECT title, completed ... WHERE id = ? AND deleted_date IS NULL\<close> of \<^verbatim>\<open>complete\<close>
  and \<^verbatim>\<open>remove\<close>, with \<^verbatim>\<open>fetchone()\<close>: the first row found, or \<^verbatim>\<open>None\<close>. The key is a
  parameter of the statement and must be an SQLite integer.
\<close>

definition select_task :: "int \<Rightarrow> connection \<Rightarrow> exn + (string \<times> bool) option" where
  "select_task task_id conn =
     (case prepare ''task'' [''title'', ''completed'', ''id'', ''deleted_date''] conn of
        Inl e \<Rightarrow> Inl e
      | Inr t \<Rightarrow>
          if \<not> sqlite_integer task_id then Inl OverflowError
          else
            Inr (map_option (\<lambda>r. (title r, completed r))
                   (find (\<lambda>r. id_col r = task_id \<and> deleted_date r = None) (rows t))))"

text \<open>\<^verbatim>\<open>UPDATE task SET ... WHERE id = ?\<close>: every row with that key is changed.\<close>

definition update_task ::
  "string list \<Rightarrow> (task_row \<Rightarrow> task_row) \<Rightarrow> int \<Rightarrow> connection \<Rightarrow> exn + connection" where
  "update_task cols f task_id conn =
     (case prepare ''task'' cols conn of
        Inl e \<Rightarrow> Inl e
      | Inr t \<Rightarrow>
          if \<not> sqlite_integer task_id then Inl OverflowError
          else
            Inr (conn(''task'' \<mapsto>
                   t\<lparr>rows := map (\<lambda>r. if id_col r = task_id then f r else r) (rows t)\<rparr>)))"

subsection \<open>\<^verbatim>\<open>khumbuza.py\<close>: the four commands\<close>

text \<open>
  What a command that ended without an exception printed:
  \<^item> \<open>Added i t d\<close>: \<^verbatim>\<open>Added task #i: 't' due d\<close>;
  \<^item> \<open>InvalidDateFormat\<close>: \<^verbatim>\<open>Error: Invalid date format. Use YYYY-MM-DD\<close>;
  \<^item> \<open>OnlyOneRecurrence\<close>: \<^verbatim>\<open>Error: Only one recurrence type allowed\<close>;
  \<^item> \<open>NegativeReminder\<close>: \<^verbatim>\<open>Error: Reminder days cannot be negative\<close>;
  \<^item> \<open>Listed rs\<close>: the rows \<open>rs\<close>, or \<^verbatim>\<open>No tasks due ...\<close> when there is none;
  \<^item> \<open>NotFound i\<close>: \<^verbatim>\<open>Task #i not found\<close>;
  \<^item> \<open>AlreadyCompleted i\<close>: \<^verbatim>\<open>Task #i is already completed\<close>;
  \<^item> \<open>Completed i t\<close>: \<^verbatim>\<open>Completed task #i: 't'\<close>;
  \<^item> \<open>NotCompleted i\<close>: \<^verbatim>\<open>Task #i is not completed.\<close>;
  \<^item> \<open>Removed i t\<close>: \<^verbatim>\<open>Removed task #i: 't'\<close>.
\<close>

datatype outcome =
    Added int string "string option"
  | InvalidDateFormat
  | OnlyOneRecurrence
  | NegativeReminder
  | Listed "summary list"
  | NotFound int
  | AlreadyCompleted int
  | Completed int string
  | NotCompleted int
  | Removed int string

text \<open>
  Lines 54 to 61 of \<^verbatim>\<open>add\<close>. \<^verbatim>\<open>if due:\<close> is false for \<^verbatim>\<open>None\<close> and for the empty string;
  the string that parses is kept as it is.
\<close>

definition add_due_date :: "string option \<Rightarrow> outcome + string option" where
  "add_due_date due =
     (case due of
        None \<Rightarrow> Inr None
      | Some s \<Rightarrow>
          if s = [] then Inr None
          else (case strptime s of None \<Rightarrow> Inl InvalidDateFormat | Some _ \<Rightarrow> Inr (Some s)))"

text \<open>Lines 63 to 77.\<close>

definition add_recurrence_type :: "bool \<Rightarrow> bool \<Rightarrow> bool \<Rightarrow> outcome + string option" where
  "add_recurrence_type weekly monthly yearly =
     (if 1 < (sum_list (map of_bool [weekly, monthly, yearly]) :: int) then Inl OnlyOneRecurrence
      else if weekly then Inr (Some ''weekly'')
      else if monthly then Inr (Some ''monthly'')
      else if yearly then Inr (Some ''yearly'')
      else Inr None)"

text \<open>Lines 79 to 85. \<^verbatim>\<open>if remind:\<close> is false for \<^verbatim>\<open>None\<close> and for 0.\<close>

definition add_advance_notice_days :: "int option \<Rightarrow> outcome + int" where
  "add_advance_notice_days remind =
     (case remind of
        None \<Rightarrow> Inr 0
      | Some n \<Rightarrow> if n = 0 then Inr 0 else if n < 0 then Inl NegativeReminder else Inr n)"

text \<open>\<^verbatim>\<open>add\<close>, lines 49 to 98. The current time \<open>now\<close> is what \<^verbatim>\<open>CURRENT_TIMESTAMP\<close> gives.\<close>

definition add_cmd ::
  "string \<Rightarrow> string option \<Rightarrow> string option \<Rightarrow> bool \<Rightarrow> bool \<Rightarrow> bool \<Rightarrow> int option \<Rightarrow>
   timestamp \<Rightarrow> world \<Rightarrow> (exn + outcome) \<times> world" where
  "add_cmd ttl due desc weekly monthly yearly remind now w =
     (case add_due_date due of
        Inl msg \<Rightarrow> (Inr msg, w)
      | Inr due_date' \<Rightarrow>
     (case add_recurrence_type weekly monthly yearly of
        Inl msg \<Rightarrow> (Inr msg, w)
      | Inr recurrence_type' \<Rightarrow>
     (case add_advance_notice_days remind of
        Inl msg \<Rightarrow> (Inr msg, w)
      | Inr advance_notice_days' \<Rightarrow>
     (case get_db_connection w of
        Inl e \<Rightarrow> (Inl e, w)
      | Inr (conn, w1) \<Rightarrow>
     (case insert_task ttl desc due_date' recurrence_type' advance_notice_days' now conn of
        Inl e \<Rightarrow> (Inl e, w1)
      | Inr (task_id, conn') \<Rightarrow>
          (Inr (Added task_id ttl due_date'), conn_close (conn_commit DB_FILE conn' w1)))))))"

text \<open>\<^verbatim>\<open>list\<close>, lines 103 to 142. \<open>today\<close> is what \<^verbatim>\<open>date.today()\<close> gives.\<close>

definition list_cmd :: "int \<Rightarrow> bool \<Rightarrow> date \<Rightarrow> world \<Rightarrow> (exn + outcome) \<times> world" where
  "list_cmd days show_all today w =
     (case get_db_connection w of
        Inl e \<Rightarrow> (Inl e, w)
      | Inr (conn, w1) \<Rightarrow>
          if show_all then
            (case select_incomplete conn of
               Inl e \<Rightarrow> (Inl e, w1)
             | Inr results \<Rightarrow> (Inr (Listed results), conn_close w1))
          else
            (case date_add today days of
               Inl e \<Rightarrow> (Inl e, w1)
             | Inr cutoff \<Rightarrow>
                 (case select_incomplete_due (isoformat cutoff) conn of
                    Inl e \<Rightarrow> (Inl e, w1)
                  | Inr results \<Rightarrow> (Inr (Listed results), conn_close w1))))"

text \<open>\<^verbatim>\<open>complete\<close>, lines 146 to 180.\<close>

definition complete_cmd :: "int \<Rightarrow> timestamp \<Rightarrow> world \<Rightarrow> (exn + outcome) \<times> world" where
  "complete_cmd task_id now w =
     (case get_db_connection w of
        Inl e \<Rightarrow> (Inl e, w)
      | Inr (conn, w1) \<Rightarrow>
          (case select_task task_id conn of
             Inl e \<Rightarrow> (Inl e, w1)
           | Inr None \<Rightarrow> (Inr (NotFound task_id), conn_close w1)
           | Inr (Some (ttl, is_completed)) \<Rightarrow>
               if is_completed then (Inr (AlreadyCompleted task_id), conn_close w1)
               else
                 (case update_task [''completed'', ''completed_date'', ''id'']
                         (\<lambda>r. r\<lparr>completed := True, completed_date := Some now\<rparr>) task_id conn of
                    Inl e \<Rightarrow> (Inl e, w1)
                  | Inr conn' \<Rightarrow>
                      (Inr (Completed task_id ttl),
                       conn_close (conn_commit DB_FILE conn' w1)))))"

text \<open>
  \<^verbatim>\<open>remove\<close>, lines 185 to 220. The return of lines 205 to 208 has no
  \<^verbatim>\<open>conn.close()\<close> before it.
\<close>

definition remove_cmd :: "int \<Rightarrow> bool \<Rightarrow> timestamp \<Rightarrow> world \<Rightarrow> (exn + outcome) \<times> world" where
  "remove_cmd task_id force now w =
     (case get_db_connection w of
        Inl e \<Rightarrow> (Inl e, w)
      | Inr (conn, w1) \<Rightarrow>
          (case select_task task_id conn of
             Inl e \<Rightarrow> (Inl e, w1)
           | Inr None \<Rightarrow> (Inr (NotFound task_id), conn_close w1)
           | Inr (Some (ttl, is_completed)) \<Rightarrow>
               if \<not> is_completed \<and> \<not> force then (Inr (NotCompleted task_id), w1)
               else
                 (case update_task [''deleted_date'', ''id'']
                         (\<lambda>r. r\<lparr>deleted_date := Some now\<rparr>) task_id conn of
                    Inl e \<Rightarrow> (Inl e, w1)
                  | Inr conn' \<Rightarrow>
                      (Inr (Removed task_id ttl),
                       conn_close (conn_commit DB_FILE conn' w1)))))"

subsection \<open>Worlds in which the commands can run\<close>

text \<open>The columns that the statements of \<^verbatim>\<open>khumbuza.py\<close> name.\<close>

definition task_columns :: "string list" where
  "task_columns =
     [''id'', ''title'', ''description'', ''due_date'', ''completed'', ''recurrence_type'',
      ''advance_notice_days'', ''completed_date'', ''deleted_date'']"

text \<open>
  The table \<^verbatim>\<open>task\<close> of the file \<^verbatim>\<open>DB_FILE\<close>, when the file exists and holds such a table
  with the columns above. The keys and the key counter of a table that SQLite holds are
  SQLite integers.
\<close>

definition sqlite_keys :: "table \<Rightarrow> bool" where
  "sqlite_keys t = (sqlite_integer (seq t) \<and> list_all (\<lambda>r. sqlite_integer (id_col r)) (rows t))"


definition task_table :: "world \<Rightarrow> table option" where
  "task_table w =
     (case files w DB_FILE of
        None \<Rightarrow> None
      | Some db \<Rightarrow>
          (case db ''task'' of
             None \<Rightarrow> None
           | Some t \<Rightarrow>
               if list_all (\<lambda>c. c \<in> set (columns t)) task_columns \<and> sqlite_keys t then Some t
               else None))"

text \<open>A world whose only file is \<^verbatim>\<open>DB_FILE\<close>, with a table \<^verbatim>\<open>task\<close> of the given rows.\<close>

definition store_of :: "task_row list \<Rightarrow> int \<Rightarrow> world" where
  "store_of rs n =
     \<lparr>files = [DB_FILE \<mapsto> [''task'' \<mapsto> \<lparr>columns = task_columns, rows = rs, seq = n\<rparr>]],
      open_connections = 0\<rparr>"

subsection \<open>Names for the statements\<close>

text \<open>The key that the next \<^verbatim>\<open>INSERT\<close> assigns, and the row that it writes.\<close>

definition next_id :: "table \<Rightarrow> int" where
  "next_id t = fold max (map id_col (rows t)) (seq t) + 1"

definition new_task :: "int \<Rightarrow> string \<Rightarrow> string option \<Rightarrow> string option \<Rightarrow> string option \<Rightarrow> int \<Rightarrow> timestamp \<Rightarrow> task_row" where
  "new_task i ttl desc due rec adv now =
     \<lparr>id_col = i, title = ttl, description = desc, due_date = due, completed = False,
      recurrence_type = rec, recurrence_interval = 1, advance_notice_days = adv,
      created_date = now, completed_date = None, deleted_date = None\<rparr>"

text \<open>
  The inputs that \<^verbatim>\<open>add\<close> rejects, in the words of the claim about it (as amended): a
  due date that is given and does not parse, more than one recurrence flag, a negative
  number of days of advance notice. The three messages of \<^verbatim>\<open>add\<close> about its input are
  the validation errors.
\<close>

definition invalid_add_input :: "string option \<Rightarrow> bool \<Rightarrow> bool \<Rightarrow> bool \<Rightarrow> int option \<Rightarrow> bool" where
  "invalid_add_input due weekly monthly yearly remind =
     ((case due of None \<Rightarrow> False | Some s \<Rightarrow> s \<noteq> [] \<and> strptime s = None)
      \<or> (weekly \<and> monthly \<or> weekly \<and> yearly \<or> monthly \<and> yearly)
      \<or> (case remind of None \<Rightarrow> False | Some n \<Rightarrow> n < 0))"

definition validation_error :: "outcome \<Rightarrow> bool" where
  "validation_error m = (m = InvalidDateFormat \<or> m = OnlyOneRecurrence \<or> m = NegativeReminder)"

text \<open>
  A due date in zero-padded form: a text that parses, and that is the ISO text of the
  date it parses to. A store in ISO form has only such due dates.
\<close>

definition iso_text :: "string \<Rightarrow> bool" where
  "iso_text s = (case strptime s of None \<Rightarrow> False | Some dt \<Rightarrow> isoformat dt = s)"

definition iso_store :: "table \<Rightarrow> bool" where
  "iso_store t = list_all (\<lambda>r. case due_date r of None \<Rightarrow> True | Some s \<Rightarrow> iso_text s) (rows t)"

text \<open>
  The calendar date that a stored due date denotes, and the order that the claim about
  \<^verbatim>\<open>list\<close> describes: by that date, a task without one first, then by key.
\<close>

definition calendar_date :: "string option \<Rightarrow> date option" where
  "calendar_date due = (case due of None \<Rightarrow> None | Some s \<Rightarrow> strptime s)"

definition calendar_key :: "summary \<Rightarrow> date option \<times> int" where
  "calendar_key sm = (case sm of (i, ttl, due, desc) \<Rightarrow> (calendar_date due, i))"




text \<open>An incomplete task that has not been removed, for the examples below.\<close>

definition example_task :: task_row where
  "example_task =
     \<lparr>id_col = 1, title = ''x'', description = None, due_date = None, completed = False,
      recurrence_type = None, recurrence_interval = 1, advance_notice_days = 0,
      created_date = ''t0'', completed_date = None, deleted_date = None\<rparr>"

text \<open>Three tasks with due dates in ISO form or without one, for the examples below.\<close>

definition iso_rows :: "task_row list" where
  "iso_rows =
     [new_task 1 ''a'' None (Some ''2025-01-05'') None 0 ''t0'',
      new_task 2 ''b'' None (Some ''2025-03-01'') None 0 ''t0'',
      new_task 3 ''c'' None None None 0 ''t0'']"

section \<open>The bootstrap script\<close>

lemma setup_database_first:
  "setup_database w = (Inr (), w') \<Longrightarrow>
     \<exists>db. files w' SETUP_DB_FILE = Some db \<and> db ''tasks'' \<noteq> None"
  by (auto simp: setup_database_def sqlite3_connect_def create_table_def conn_close_def
      conn_commit_def split: option.splits sum.splits)

text \<open>
  Claim C4, as the specification states it: a second run of the bootstrap succeeds.
  It does not: on the world left by a first run from an empty file system, the second
  run ends with the error of \<^verbatim>\<open>CREATE TABLE\<close>.
\<close>

theorem setup_database_twice_counterexample:
  "fst (setup_database empty_world) = Inr () \<and>
   fst (setup_database (snd (setup_database empty_world))) =
     Inl (OperationalError ''table tasks already exists'')"
  by (simp add: setup_database_def sqlite3_connect_def create_table_def conn_close_def
      conn_commit_def empty_world_def)

text \<open>
  Claim C4, amended: the bootstrap is a one-time operation. After a first successful
  run, a second run fails with the error that the table already exists, and it leaves
  every file as the first run left it.
\<close>

theorem setup_database_one_time:
  assumes "setup_database w = (Inr (), w')"
  shows "fst (setup_database w') = Inl (OperationalError ''table tasks already exists'')
       \<and> files (snd (setup_database w')) = files w'"
proof -
  from setup_database_first [OF assms] obtain db t
    where db: "files w' SETUP_DB_FILE = Some db" and t: "db ''tasks'' = Some t"
    by auto
  show ?thesis
    using db t
    by (simp add: setup_database_def sqlite3_connect_def create_table_def)
qed

theorem setup_database_one_time_witness:
  "setup_database empty_world = (Inr (), snd (setup_database empty_world))
   \<and> fst (setup_database (snd (setup_database empty_world))) =
       Inl (OperationalError ''table tasks already exists'')
   \<and> files (snd (setup_database (snd (setup_database empty_world)))) =
       files (snd (setup_database empty_world))"
proof -
  have h: "setup_database empty_world = (Inr (), snd (setup_database empty_world))"
    by (simp add: setup_database_def sqlite3_connect_def create_table_def conn_close_def
        conn_commit_def empty_world_def)
  show ?thesis
    using h setup_database_one_time [OF h] by simp
qed

section \<open>The two scripts do not share a store\<close>

text \<open>
  Claim C2: the bootstrap and the four commands use the same file and the same table, the
  table has a \<^verbatim>\<open>deleted_date\<close> column, and a freshly bootstrapped store accepts every
  command. The code does otherwise, against its own comment on line 10 of
  \<^verbatim>\<open>setup_db.py\<close> (\<^verbatim>\<open>must match khumbuza.py\<close>): the two files differ, so after a bootstrap
  on an empty file system every command exits with status 1; the bootstrap's table is
  \<^verbatim>\<open>tasks\<close>, not \<^verbatim>\<open>task\<close>, so even on the bootstrap's file \<^verbatim>\<open>add\<close> finds no table; and the
  table has no \<^verbatim>\<open>deleted_date\<close> column, so even under the name \<^verbatim>\<open>task\<close> the statement of
  \<^verbatim>\<open>complete\<close> does not compile.
\<close>

theorem bootstrapped_store_rejects_commands:
  "SETUP_DB_FILE \<noteq> DB_FILE
   \<and> (let w = snd (setup_database empty_world) in
        fst (setup_database empty_world) = Inr ()
        \<and> fst (add_cmd ''x'' None None False False False None ''t0'' w) = Inl (SystemExit 1)
        \<and> fst (list_cmd 30 False (2025, 1, 1) w) = Inl (SystemExit 1)
        \<and> fst (complete_cmd 1 ''t0'' w) = Inl (SystemExit 1)
        \<and> fst (remove_cmd 1 False ''t0'' w) = Inl (SystemExit 1))
   \<and> (case files (snd (setup_database empty_world)) SETUP_DB_FILE of
        None \<Rightarrow> False
      | Some db \<Rightarrow>
          db ''task'' = None
          \<and> db ''tasks'' = Some \<lparr>columns = setup_columns, rows = [], seq = 0\<rparr>
          \<and> fst (add_cmd ''x'' None None False False False None ''t0''
                   \<lparr>files = [DB_FILE \<mapsto> db], open_connections = 0\<rparr>)
              = Inl (OperationalError ''no such table: task''))
   \<and> ''deleted_date'' \<notin> set setup_columns
   \<and> fst (complete_cmd 1 ''t0''
            \<lparr>files = [DB_FILE \<mapsto> [''task'' \<mapsto> \<lparr>columns = setup_columns, rows = [], seq = 0\<rparr>]],
             open_connections = 0\<rparr>)
       = Inl (OperationalError ''no such column: deleted_date'')"
  by code_simp

section \<open>Removed tasks\<close>

text \<open>
  Claim C1: after a successful \<^verbatim>\<open>remove\<close> of a task, \<^verbatim>\<open>list\<close> omits it and \<^verbatim>\<open>complete\<close>
  and \<^verbatim>\<open>remove\<close> do not find it. The queries of \<^verbatim>\<open>list\<close> have no
  \<^verbatim>\<open>deleted_date IS NULL\<close>, which those of \<^verbatim>\<open>complete\<close> and \<^verbatim>\<open>remove\<close> have: a task that
  was removed with \<^verbatim>\<open>--force\<close> while incomplete is still listed, with and without
  \<^verbatim>\<open>--all\<close>, although \<^verbatim>\<open>complete\<close> and \<^verbatim>\<open>remove\<close> report it as not found.
\<close>

theorem list_shows_force_removed_task:
  "(let w1 = snd (add_cmd ''x'' None None False False False None ''t0'' (store_of [] 0));
        r = remove_cmd 1 True ''t1'' w1
    in fst r = Inr (Removed 1 ''x'')
       \<and> fst (list_cmd 30 True (2025, 1, 1) (snd r)) = Inr (Listed [(1, ''x'', None, None)])
       \<and> fst (list_cmd 30 False (2025, 1, 1) (snd r)) = Inr (Listed [(1, ''x'', None, None)])
       \<and> fst (complete_cmd 1 ''t2'' (snd r)) = Inr (NotFound 1)
       \<and> fst (remove_cmd 1 True ''t2'' (snd r)) = Inr (NotFound 1))"
  by code_simp

section \<open>The connection\<close>

text \<open>
  Claim C3: every command closes the connection it opened, on every way out. When
  \<^verbatim>\<open>remove\<close> refuses an incomplete task (lines 205 to 208) it returns without
  \<^verbatim>\<open>conn.close()\<close>, unlike the not-found return just above it and the two early returns
  of \<^verbatim>\<open>complete\<close>: one connection stays open.
\<close>

theorem remove_refusal_leaves_connection_open:
  "(let w1 = snd (add_cmd ''x'' None None False False False None ''t0'' (store_of [] 0));
        r = remove_cmd 1 False ''t1'' w1
    in open_connections w1 = 0
       \<and> fst r = Inr (NotCompleted 1)
       \<and> open_connections (snd r) = 1
       \<and> open_connections (snd (remove_cmd 2 False ''t1'' w1)) = 0
       \<and> open_connections (snd (complete_cmd 2 ''t1'' w1)) = 0)"
  by code_simp

section \<open>Due dates that are not zero-padded\<close>

text \<open>
  Claim C10: \<^verbatim>\<open>add\<close> accepts due dates that are not in zero-padded form, such as
  \<^verbatim>\<open>2025-1-5\<close>, and stores them as they are, and \<^verbatim>\<open>list\<close> compares the stored texts; so
  for some accepted due dates the horizon filter and the ordering disagree with the
  calendar. Here the task due on 1 September 2025 is added first and stored as
  \<^verbatim>\<open>2025-9-1\<close>, and the task due on 1 October is added second: the listing has the task
  of October first, which is neither the order of the calendar nor the order of the
  keys, and the task of September is left out of the 30 days from 15 September, which
  end on 15 October. And the task due on 5 January, stored as \<^verbatim>\<open>2025-1-5\<close>, is left out
  of the 30 days from 1 January.
\<close>

theorem unpadded_due_dates_compare_as_text:
  "strptime ''2025-1-5'' = Some (2025, 1, 5)
   \<and> strptime ''2025-9-1'' = Some (2025, 9, 1)
   \<and> strptime ''2025-10-01'' = Some (2025, 10, 1)
   \<and> (let w1 = snd (add_cmd ''a'' (Some ''2025-9-1'') None False False False None ''t0''
                      (store_of [] 0));
           w2 = snd (add_cmd ''b'' (Some ''2025-10-01'') None False False False None ''t1'' w1);
           w3 = snd (add_cmd ''c'' (Some ''2025-1-5'') None False False False None ''t2''
                      (store_of [] 0))
       in map_option (\<lambda>t. map due_date (rows t)) (task_table w2)
            = Some [Some ''2025-9-1'', Some ''2025-10-01'']
          \<and> fst (list_cmd 30 True (2025, 9, 15) w2)
              = Inr (Listed [(2, ''b'', Some ''2025-10-01'', None), (1, ''a'', Some ''2025-9-1'', None)])
          \<and> (2025, 9, 1) < ((2025, 10, 1) :: date)
          \<and> ''2025-10-01'' < ''2025-9-1''
          \<and> date_add (2025, 9, 15) 30 = Inr (2025, 10, 15)
          \<and> (2025, 9, 1) \<le> ((2025, 10, 15) :: date)
          \<and> \<not> ''2025-9-1'' \<le> isoformat (2025, 10, 15)
          \<and> fst (list_cmd 30 False (2025, 9, 15) w2)
              = Inr (Listed [(2, ''b'', Some ''2025-10-01'', None)])
          \<and> map_option (\<lambda>t. map due_date (rows t)) (task_table w3) = Some [Some ''2025-1-5'']
          \<and> date_add (2025, 1, 1) 30 = Inr (2025, 1, 31)
          \<and> (2025, 1, 5) \<le> ((2025, 1, 31) :: date)
          \<and> \<not> ''2025-1-5'' \<le> isoformat (2025, 1, 31)
          \<and> fst (list_cmd 30 False (2025, 1, 1) w3) = Inr (Listed []))"
  by code_simp

section \<open>Statements on an available store\<close>

lemma task_tableD:
  assumes "task_table w = Some t"
  obtains db where "files w DB_FILE = Some db" and "db ''task'' = Some t"
    and "set task_columns \<subseteq> set (columns t)" and "sqlite_keys t"
  using assms
  by (auto simp: task_table_def list_all_iff split: option.splits if_splits)

lemma task_table_store_of:
  assumes "sqlite_integer n" and "list_all (\<lambda>r. sqlite_integer (id_col r)) rs"
  shows "task_table (store_of rs n) = Some \<lparr>columns = task_columns, rows = rs, seq = n\<rparr>"
  using assms by (simp add: task_table_def store_of_def sqlite_keys_def list_all_iff)

lemma sqlite_keys_row: "sqlite_keys t \<Longrightarrow> r \<in> set (rows t) \<Longrightarrow> sqlite_integer (id_col r)"
  by (simp add: sqlite_keys_def list_all_iff)

lemma sqlite_keys_update:
  assumes "sqlite_keys t" and "id_col (f r) = id_col r"
  shows "sqlite_keys (t\<lparr>rows := map (\<lambda>x. if x = r then f r else x) (rows t)\<rparr>)"
  using assms by (auto simp: sqlite_keys_def list_all_iff)

lemma prepare_task:
  assumes "db ''task'' = Some t" and "set cols \<subseteq> set (columns t)"
  shows "prepare ''task'' cols db = Inr t"
proof -
  have "filter (\<lambda>c. c \<notin> set (columns t)) cols = []"
    using assms(2) by (auto simp: filter_empty_conv)
  then show ?thesis
    using assms(1) by (simp add: prepare_def)
qed

lemma prepare_insert_task:
  assumes "db ''task'' = Some t" and "set cols \<subseteq> set (columns t)"
  shows "prepare_insert ''task'' cols db = Inr t"
proof -
  have "filter (\<lambda>c. c \<notin> set (columns t)) cols = []"
    using assms(2) by (auto simp: filter_empty_conv)
  then show ?thesis
    using assms(1) by (simp add: prepare_insert_def)
qed

lemma get_db_connection_task:
  assumes "files w DB_FILE = Some db"
  shows "get_db_connection w = Inr (db, w\<lparr>open_connections := open_connections w + 1\<rparr>)"
  using assms by (simp add: get_db_connection_def sqlite3_connect_def)

lemma find_by_id:
  assumes "distinct (map id_col rs)" and "r \<in> set rs" and "P r"
  shows "find (\<lambda>x. id_col x = id_col r \<and> P x) rs = Some r"
  using assms
proof (induction rs)
  case Nil
  then show ?case by simp
next
  case (Cons a rs)
  then show ?case by (cases "a = r") (auto simp: image_iff)
qed

lemma map_only_id:
  assumes "distinct (map id_col rs)" and "r \<in> set rs"
  shows "map (\<lambda>x. if id_col x = id_col r then f x else x) rs
       = map (\<lambda>x. if x = r then f r else x) rs"
  using assms by (intro map_cong) (auto simp: distinct_map inj_on_def)

lemma select_task_found:
  assumes "db ''task'' = Some t" and "set task_columns \<subseteq> set (columns t)"
    and "sqlite_keys t"
    and "distinct (map id_col (rows t))" and "r \<in> set (rows t)" and "deleted_date r = None"
  shows "select_task (id_col r) db = Inr (Some (title r, completed r))"
proof -
  have "prepare ''task'' [''title'', ''completed'', ''id'', ''deleted_date''] db = Inr t"
    using assms(1,2) by (intro prepare_task [of db t]) (auto simp: task_columns_def)
  moreover have "find (\<lambda>x. id_col x = id_col r \<and> deleted_date x = None) (rows t) = Some r"
    using assms(4-6) by (rule find_by_id)
  moreover have "sqlite_integer (id_col r)"
    using assms(3,5) by (rule sqlite_keys_row)
  ultimately show ?thesis by (simp add: select_task_def)
qed


lemma select_task_overflow:
  assumes "db ''task'' = Some t" and "set task_columns \<subseteq> set (columns t)"
    and "\<not> sqlite_integer task_id"
  shows "select_task task_id db = Inl OverflowError"
proof -
  have "prepare ''task'' [''title'', ''completed'', ''id'', ''deleted_date''] db = Inr t"
    using assms(1,2) by (intro prepare_task [of db t]) (auto simp: task_columns_def)
  then show ?thesis by (simp add: select_task_def assms(3))
qed

lemma update_task_ok:
  assumes "db ''task'' = Some t" and "set cols \<subseteq> set (columns t)"
    and "sqlite_integer task_id"
  shows "update_task cols f task_id db
       = Inr (db(''task'' \<mapsto> t\<lparr>rows := map (\<lambda>r. if id_col r = task_id then f r else r) (rows t)\<rparr>))"
  using prepare_task [of db t cols] assms by (simp add: update_task_def)

lemma task_table_commit:
  assumes "set task_columns \<subseteq> set (columns t')" and "sqlite_keys t'"
  shows "task_table (conn_close (conn_commit DB_FILE (db(''task'' \<mapsto> t')) w')) = Some t'"
  using assms by (auto simp: task_table_def conn_close_def conn_commit_def list_all_iff)

lemma fold_max_ge: "a \<le> fold max xs (a::int)"
  by (induction xs arbitrary: a) (auto intro: order_trans [OF max.cobounded2])

lemma fold_max_ge_elem: "x \<in> set xs \<Longrightarrow> x \<le> fold max xs (a::int)"
proof (induction xs arbitrary: a)
  case Nil
  then show ?case by simp
next
  case (Cons y ys)
  show ?case
  proof (cases "x = y")
    case True
    have "y \<le> max y a" by simp
    also have "\<dots> \<le> fold max ys (max y a)" by (rule fold_max_ge)
    finally show ?thesis using True by simp
  next
    case False
    with Cons show ?thesis by simp
  qed
qed

lemma next_id_fresh: "next_id t \<notin> id_col ` set (rows t)"
proof
  assume "next_id t \<in> id_col ` set (rows t)"
  then have "next_id t \<in> set (map id_col (rows t))" by simp
  then have "next_id t \<le> fold max (map id_col (rows t)) (seq t)" by (rule fold_max_ge_elem)
  then show False by (simp add: next_id_def)
qed

lemma sqlite_keys_insert:
  assumes "sqlite_keys t" and "next_id t \<le> 9223372036854775807"
  shows "sqlite_keys (t\<lparr>rows := rows t @ [new_task (next_id t) ttl desc due rec adv now],
                        seq := next_id t\<rparr>)"
proof -
  have "seq t \<le> fold max (map id_col (rows t)) (seq t)" by (rule fold_max_ge)
  then have "sqlite_integer (next_id t)"
    using assms by (simp add: sqlite_keys_def sqlite_integer_def next_id_def)
  then show ?thesis
    using assms(1) by (simp add: sqlite_keys_def new_task_def)
qed

lemma insert_task_ok:
  assumes "db ''task'' = Some t" and "set task_columns \<subseteq> set (columns t)"
    and "next_id t \<le> 9223372036854775807" and "sqlite_integer adv"
  shows "insert_task ttl desc due rec adv now db
       = Inr (next_id t,
              db(''task'' \<mapsto> t\<lparr>rows := rows t @ [new_task (next_id t) ttl desc due rec adv now],
                                 seq := next_id t\<rparr>))"
proof -
  have "prepare_insert ''task''
          [''title'', ''description'', ''due_date'', ''recurrence_type'', ''advance_notice_days''] db
        = Inr t"
    using assms(1,2) by (intro prepare_insert_task [of db t]) (auto simp: task_columns_def)
  then show ?thesis
    using assms(3,4)
    by (simp add: insert_task_def next_id_def new_task_def default_row_def Let_def)
qed


lemma add_cmd_valid:
  assumes "task_table w = Some t" and "next_id t \<le> 9223372036854775807"
    and "add_due_date due = Inr d" and "add_recurrence_type weekly monthly yearly = Inr rec"
    and "add_advance_notice_days remind = Inr adv" and "sqlite_integer adv"
  shows "fst (add_cmd ttl due desc weekly monthly yearly remind now w)
           = Inr (Added (next_id t) ttl d)"
    and "task_table (snd (add_cmd ttl due desc weekly monthly yearly remind now w))
           = Some (t\<lparr>rows := rows t @ [new_task (next_id t) ttl desc d rec adv now],
                     seq := next_id t\<rparr>)"
    and "open_connections (snd (add_cmd ttl due desc weekly monthly yearly remind now w))
           = open_connections w"
proof -
  from assms(1) obtain db where db: "files w DB_FILE = Some db" "db ''task'' = Some t"
    and cols: "set task_columns \<subseteq> set (columns t)" and keys: "sqlite_keys t"
    by (rule task_tableD)
  note ins = insert_task_ok [of db t, OF db(2) cols assms(2,6)]
  note keys' = sqlite_keys_insert [OF keys assms(2)]
  show "fst (add_cmd ttl due desc weekly monthly yearly remind now w)
           = Inr (Added (next_id t) ttl d)"
    by (simp add: add_cmd_def assms(3-5) get_db_connection_task [OF db(1)] ins)
  show "task_table (snd (add_cmd ttl due desc weekly monthly yearly remind now w))
           = Some (t\<lparr>rows := rows t @ [new_task (next_id t) ttl desc d rec adv now],
                     seq := next_id t\<rparr>)"
    using cols keys'
    by (simp add: add_cmd_def assms(3-5) get_db_connection_task [OF db(1)] ins task_table_commit)
  show "open_connections (snd (add_cmd ttl due desc weekly monthly yearly remind now w))
           = open_connections w"
    by (simp add: add_cmd_def assms(3-5) get_db_connection_task [OF db(1)] ins
        conn_close_def conn_commit_def)
qed

lemma add_cmd_invalid:
  assumes "add_due_date due = Inl m \<or> add_recurrence_type weekly monthly yearly = Inl m
           \<or> add_advance_notice_days remind = Inl m"
  shows "\<exists>m'. add_cmd ttl due desc weekly monthly yearly remind now w = (Inr m', w) 
    \<and> m' \<in> {InvalidDateFormat, OnlyOneRecurrence, NegativeReminder}"
  using assms
  by (auto simp: add_cmd_def add_due_date_def add_recurrence_type_def add_advance_notice_days_def
       split: sum.splits option.splits if_splits)









lemma complete_cmd_overflow:
  assumes "task_table w = Some t" and "\<not> sqlite_integer task_id"
  shows "complete_cmd task_id now w
       = (Inl OverflowError, w\<lparr>open_connections := open_connections w + 1\<rparr>)"
proof -
  from assms(1) obtain db where db: "files w DB_FILE = Some db" "db ''task'' = Some t"
    and cols: "set task_columns \<subseteq> set (columns t)"
    by (rule task_tableD)
  have "select_task task_id db = Inl OverflowError"
    using db(2) cols assms(2) by (rule select_task_overflow)
  then show ?thesis
    by (simp add: complete_cmd_def get_db_connection_task [OF db(1)])
qed





lemma recurrence_conflict_iff:
  "(1 < (sum_list (map of_bool [weekly, monthly, yearly]) :: int))
     = (weekly \<and> monthly \<or> weekly \<and> yearly \<or> monthly \<and> yearly)"
  by (cases weekly; cases monthly; cases yearly) simp_all

lemma add_checks_valid:
  assumes "\<not> invalid_add_input due weekly monthly yearly remind"
  shows "add_due_date due = Inr (if due = Some [] then None else due)"
    and "add_recurrence_type weekly monthly yearly
           = Inr (if weekly then Some ''weekly'' else if monthly then Some ''monthly''
                  else if yearly then Some ''yearly'' else None)"
    and "add_advance_notice_days remind = Inr (case remind of None \<Rightarrow> 0 | Some n \<Rightarrow> n)"
  using assms
  by (auto simp: invalid_add_input_def add_due_date_def add_recurrence_type_def
      recurrence_conflict_iff add_advance_notice_days_def split: option.splits)

lemma add_checks_invalid:
  assumes "invalid_add_input due weekly monthly yearly remind"
  shows "\<exists>m. add_due_date due = Inl m \<or> add_recurrence_type weekly monthly yearly = Inl m
           \<or> add_advance_notice_days remind = Inl m"
  using assms
  by (auto simp: invalid_add_input_def add_due_date_def add_recurrence_type_def
      recurrence_conflict_iff add_advance_notice_days_def split: option.splits)

section \<open>\<^verbatim>\<open>remove\<close>\<close>

text \<open>
  Claim C7: \<^verbatim>\<open>remove\<close> of a task that has not been removed. When the task is incomplete
  and \<^verbatim>\<open>force\<close> is false, the command reports that the task is not completed and no file
  changes. Otherwise it reports the removal with the task's title, and in the table
  exactly this task has changed: its \<^verbatim>\<open>deleted_date\<close> is the current time. The keys of
  the table are distinct, as the primary key makes them.
\<close>

theorem remove_cmd_spec:
  assumes "task_table w = Some t" and "distinct (map id_col (rows t))"
    and "r \<in> set (rows t)" and "deleted_date r = None"
  shows "if \<not> completed r \<and> \<not> force
         then fst (remove_cmd (id_col r) force now w) = Inr (NotCompleted (id_col r))
              \<and> files (snd (remove_cmd (id_col r) force now w)) = files w
         else fst (remove_cmd (id_col r) force now w) = Inr (Removed (id_col r) (title r))
              \<and> task_table (snd (remove_cmd (id_col r) force now w))
                  = Some (t\<lparr>rows := map (\<lambda>x. if x = r then r\<lparr>deleted_date := Some now\<rparr> else x)
                                       (rows t)\<rparr>)"
proof -
  from assms(1) obtain db where db: "files w DB_FILE = Some db" "db ''task'' = Some t"
    and cols: "set task_columns \<subseteq> set (columns t)" and keys: "sqlite_keys t"
    by (rule task_tableD)
  have sel: "select_task (id_col r) db = Inr (Some (title r, completed r))"
    using db(2) cols keys assms(2-4) by (rule select_task_found)
  have upd: "update_task [''deleted_date'', ''id''] (\<lambda>r. r\<lparr>deleted_date := Some now\<rparr>) (id_col r) db
           = Inr (db(''task'' \<mapsto> t\<lparr>rows := map (\<lambda>x. if x = r then r\<lparr>deleted_date := Some now\<rparr> else x)
                                       (rows t)\<rparr>))"
    using cols map_only_id [OF assms(2,3), of "\<lambda>r. r\<lparr>deleted_date := Some now\<rparr>"]
    by (subst update_task_ok [of db t])
      (auto simp: db(2) task_columns_def sqlite_keys_row [OF keys assms(3)])
  show ?thesis
    using cols sqlite_keys_update [OF keys, of "\<lambda>r. r\<lparr>deleted_date := Some now\<rparr>" r]
    by (simp add: remove_cmd_def get_db_connection_task [OF db(1)] sel upd task_table_commit)
qed

theorem remove_cmd_spec_witness:
  "fst (remove_cmd 1 False ''t1'' (store_of [example_task] 1)) = Inr (NotCompleted 1)
   \<and> files (snd (remove_cmd 1 False ''t1'' (store_of [example_task] 1)))
       = files (store_of [example_task] 1)
   \<and> fst (remove_cmd 1 True ''t1'' (store_of [example_task] 1)) = Inr (Removed 1 ''x'')
   \<and> task_table (snd (remove_cmd 1 True ''t1'' (store_of [example_task] 1)))
       = Some \<lparr>columns = task_columns,
                rows = [example_task\<lparr>deleted_date := Some ''t1''\<rparr>], seq = 1\<rparr>"
proof -
  let ?t = "\<lparr>columns = task_columns, rows = [example_task], seq = 1\<rparr>"
  have h1: "task_table (store_of [example_task] 1) = Some ?t"
    by (simp add: task_table_store_of sqlite_integer_def example_task_def iso_rows_def
        new_task_def)
  have h2: "distinct (map id_col (rows ?t))" by simp
  have h3: "example_task \<in> set (rows ?t)" by simp
  have h4: "deleted_date example_task = None" by (simp add: example_task_def)
  have i: "id_col example_task = 1" "title example_task = ''x''" "\<not> completed example_task"
    by (simp_all add: example_task_def)
  show ?thesis
    using remove_cmd_spec [OF h1 h2 h3 h4, of False "''t1''"]
      remove_cmd_spec [OF h1 h2 h3 h4, of True "''t1''"] i
    by simp
qed

section \<open>\<^verbatim>\<open>add\<close>\<close>

text \<open>
  Claim C5, as the specification states it: \<^verbatim>\<open>add\<close> rejects an empty title, and inserts
  a row for every valid input. It does not reject the empty title: \<^verbatim>\<open>add\<close> never looks
  at the title, and the empty title is stored. And for a number of days of advance
  notice that is not negative and does not fit an SQLite integer, the \<^verbatim>\<open>INSERT\<close> raises
  \<^verbatim>\<open>OverflowError\<close> and no row is written.
\<close>

theorem add_empty_title_counterexample:
  "fst (add_cmd [] None None False False False None ''t0'' (store_of [] 0)) = Inr (Added 1 [] None)
   \<and> map_option (\<lambda>t. map title (rows t))
        (task_table (snd (add_cmd [] None None False False False None ''t0'' (store_of [] 0))))
       = Some [[]]
   \<and> fst (add_cmd ''x'' None None False False False (Some 9223372036854775808) ''t0''
           (store_of [] 0))
       = Inl OverflowError
   \<and> map_option rows
        (task_table (snd (add_cmd ''x'' None None False False False (Some 9223372036854775808)
                            ''t0'' (store_of [] 0))))
       = Some []"
  by code_simp

text \<open>
  Claim C5, amended: on an available store with a key left, and for days of advance
  notice that do not exceed the largest SQLite integer, \<^verbatim>\<open>add\<close> prints a validation
  error and changes nothing exactly when a due date is given and does not parse, or more
  than one recurrence flag is set, or the days of advance notice are negative. For
  every other such input, an empty title included, it appends exactly one row, with
  \<^verbatim>\<open>completed\<close> false and no \<^verbatim>\<open>deleted_date\<close>, and reports the key of that row, which no
  other row has.
\<close>

theorem add_cmd_spec:
  assumes "task_table w = Some t" and "next_id t \<le> 9223372036854775807"
    and "case remind of None \<Rightarrow> True | Some n \<Rightarrow> n \<le> 9223372036854775807"
  shows "if invalid_add_input due weekly monthly yearly remind
         then (\<exists>m. validation_error m
                 \<and> add_cmd ttl due desc weekly monthly yearly remind now w = (Inr m, w))
         else fst (add_cmd ttl due desc weekly monthly yearly remind now w)
                = Inr (Added (next_id t) ttl (if due = Some [] then None else due))
              \<and> task_table (snd (add_cmd ttl due desc weekly monthly yearly remind now w))
                = Some (t\<lparr>rows := rows t @
                            [new_task (next_id t) ttl desc (if due = Some [] then None else due)
                               (if weekly then Some ''weekly'' else if monthly then Some ''monthly''
                                else if yearly then Some ''yearly'' else None)
                               (case remind of None \<Rightarrow> 0 | Some n \<Rightarrow> n) now],
                          seq := next_id t\<rparr>)
              \<and> next_id t \<notin> id_col ` set (rows t)"
proof (cases "invalid_add_input due weekly monthly yearly remind")
  case True
  from add_checks_invalid [OF True] obtain m
    where "add_due_date due = Inl m \<or> add_recurrence_type weekly monthly yearly = Inl m
           \<or> add_advance_notice_days remind = Inl m"
    by blast
  from add_cmd_invalid [OF this, of ttl desc now w] show ?thesis
    using True by (auto simp: validation_error_def)
next
  case False
  note ok = add_checks_valid [OF False]
  have fits: "sqlite_integer (case remind of None \<Rightarrow> 0 | Some n \<Rightarrow> n)"
    using False assms(3)
    by (auto simp: invalid_add_input_def sqlite_integer_def split: option.splits)
  show ?thesis
    using False add_cmd_valid(1,2) [OF assms(1,2) ok fits, of ttl desc now] next_id_fresh [of t]
    by simp
qed

theorem add_cmd_spec_witness:
  "(\<exists>m. validation_error m
        \<and> add_cmd ''X'' None None True True False None ''t0'' (store_of [] 0)
            = (Inr m, store_of [] 0))
   \<and> (\<exists>m. validation_error m
        \<and> add_cmd ''Y'' None None False False False (Some (- 1)) ''t0'' (store_of [] 0)
            = (Inr m, store_of [] 0))
   \<and> fst (add_cmd ''Pay rent'' (Some ''2025-01-05'') None False False False (Some 3) ''t0''
           (store_of [] 0))
       = Inr (Added 1 ''Pay rent'' (Some ''2025-01-05''))
   \<and> task_table (snd (add_cmd ''Pay rent'' (Some ''2025-01-05'') None False False False (Some 3)
                         ''t0'' (store_of [] 0)))
       = Some \<lparr>columns = task_columns,
                rows = [new_task 1 ''Pay rent'' None (Some ''2025-01-05'') None 3 ''t0''],
                seq = 1\<rparr>"
proof -
  let ?t = "\<lparr>columns = task_columns, rows = [], seq = 0\<rparr>"
  have h1: "task_table (store_of [] 0) = Some ?t"
    by (simp add: task_table_store_of sqlite_integer_def)
  have n: "next_id ?t = 1" by (simp add: next_id_def)
  have h2: "next_id ?t \<le> 9223372036854775807" by (simp add: n)
  have p: "strptime ''2025-01-05'' = Some (2025, 1, 5)" by code_simp
  have i1: "invalid_add_input None True True False None"
    and i2: "invalid_add_input None False False False (Some (- 1))"
    and i3: "\<not> invalid_add_input (Some ''2025-01-05'') False False False (Some 3)"
    by (simp_all add: invalid_add_input_def p)
  have r1: "case None :: int option of None \<Rightarrow> True | Some n \<Rightarrow> n \<le> 9223372036854775807"
    and r2: "case Some (- 1 :: int) of None \<Rightarrow> True | Some n \<Rightarrow> n \<le> 9223372036854775807"
    and r3: "case Some (3 :: int) of None \<Rightarrow> True | Some n \<Rightarrow> n \<le> 9223372036854775807"
    by simp_all
  show ?thesis
    using add_cmd_spec [OF h1 h2 r1, where due = None and weekly = True and monthly = True
        and yearly = False and ttl = "''X''" and desc = None and now = "''t0''"]
      add_cmd_spec [OF h1 h2 r2, where due = None and weekly = False and monthly = False
        and yearly = False and ttl = "''Y''" and desc = None and now = "''t0''"]
      add_cmd_spec [OF h1 h2 r3, where due = "Some ''2025-01-05''" and weekly = False
        and monthly = False and yearly = False and ttl = "''Pay rent''" and desc = None
        and now = "''t0''"]
      i1 i2 i3 n
    by simp
qed

section \<open>\<^verbatim>\<open>complete\<close>\<close>



section \<open>Dates and their ISO texts\<close>

text \<open>
  On valid dates, the byte order of the ISO texts is the order of the calendar: the
  fields have fixed widths and the digits are in the order of their values.
\<close>

lemma two_digits_order:
  fixes m n :: int
  shows "(m div 10 < n div 10 \<or> m div 10 = n div 10 \<and> (m mod 10 < n mod 10 \<or> m mod 10 = n mod 10 \<and> P))
       \<longleftrightarrow> (m < n \<or> m = n \<and> P)"
proof -
  define a b c d where "a = m div 10" and "b = m mod 10" and "c = n div 10" and "d = n mod 10"
  have m: "m = 10 * a + b" and n: "n = 10 * c + d"
    by (simp_all add: a_def b_def c_def d_def)
  have r: "0 \<le> b" "b < 10" "0 \<le> d" "d < 10"
    by (simp_all add: b_def d_def)
  show ?thesis
    unfolding a_def [symmetric] b_def [symmetric] c_def [symmetric] d_def [symmetric]
    unfolding m n using r by auto
qed

lemma hundreds_order:
  fixes m n :: int
  shows "(m div 100 < n div 100 \<or> m div 100 = n div 100 \<and> (m mod 100 < n mod 100 \<or> m mod 100 = n mod 100 \<and> P))
       \<longleftrightarrow> (m < n \<or> m = n \<and> P)"
proof -
  define a b c d where "a = m div 100" and "b = m mod 100" and "c = n div 100" and "d = n mod 100"
  have m: "m = 100 * a + b" and n: "n = 100 * c + d"
    by (simp_all add: a_def b_def c_def d_def)
  have r: "0 \<le> b" "b < 100" "0 \<le> d" "d < 100"
    by (simp_all add: b_def d_def)
  show ?thesis
    unfolding a_def [symmetric] b_def [symmetric] c_def [symmetric] d_def [symmetric]
    unfolding m n using r by auto
qed


lemma of_char_digit_char:
  assumes "0 \<le> n" and "n \<le> 9"
  shows "(of_char (digit_char n) :: nat) = nat (48 + n)"
proof -
  have "char_of (48 + n) = char_of (int (nat (48 + n)))"
    using assms by simp
  also have "\<dots> = char_of (nat (48 + n))"
    by (rule char_of_nat)
  finally have "digit_char n = char_of (nat (48 + n))"
    by (simp add: digit_char_def)
  then show ?thesis using assms by simp
qed

lemma digit_char_less:
  assumes "0 \<le> a" "a \<le> 9" "0 \<le> b" "b \<le> 9"
  shows "digit_char a < digit_char b \<longleftrightarrow> a < b"
  using assms by (simp add: less_char_def of_char_digit_char)

lemma digit_char_eq:
  assumes "0 \<le> a" "a \<le> 9" "0 \<le> b" "b \<le> 9"
  shows "digit_char a = digit_char b \<longleftrightarrow> a = b"
proof
  assume "digit_char a = digit_char b"
  then have "(of_char (digit_char a) :: nat) = of_char (digit_char b)" by simp
  then show "a = b" using assms by (simp add: of_char_digit_char)
qed simp

lemma pad2_le:
  assumes "0 \<le> m" "m < 100" "0 \<le> n" "n < 100"
  shows "pad2 m @ xs \<le> pad2 n @ ys \<longleftrightarrow> m < n \<or> m = n \<and> xs \<le> ys"
proof -
  have b: "0 \<le> m div 10" "m div 10 \<le> 9" "0 \<le> m mod 10" "m mod 10 \<le> 9"
    "0 \<le> n div 10" "n div 10 \<le> 9" "0 \<le> n mod 10" "n mod 10 \<le> 9"
    using assms by simp_all
  have "pad2 m @ xs \<le> pad2 n @ ys \<longleftrightarrow>
          m div 10 < n div 10
          \<or> m div 10 = n div 10 \<and> (m mod 10 < n mod 10 \<or> m mod 10 = n mod 10 \<and> xs \<le> ys)"
    using b by (simp add: pad2_def digit_char_less digit_char_eq)
  then show ?thesis
    by (simp only: two_digits_order)
qed

lemma pad4_split: "pad4 k = pad2 (k div 100) @ pad2 (k mod 100)"
proof -
  have d: "k div 1000 = k div 100 div 10"
    using zdiv_zmult2_eq [of 10 k 100] by simp
  have m: "k mod 100 = 10 * (k div 10 mod 10) + k mod 10"
    using zmod_zmult2_eq [of 10 k 10] by simp
  have "0 \<le> k mod 10" "k mod 10 < 10" by simp_all
  then have "k mod 100 div 10 = k div 10 mod 10" "k mod 100 mod 10 = k mod 10"
    unfolding m by simp_all
  with d show ?thesis by (simp add: pad4_def pad2_def)
qed

lemma pad4_le:
  assumes "0 \<le> m" "m < 10000" "0 \<le> n" "n < 10000"
  shows "pad4 m @ xs \<le> pad4 n @ ys \<longleftrightarrow> m < n \<or> m = n \<and> xs \<le> ys"
proof -
  have b: "0 \<le> m div 100" "m div 100 < 100" "0 \<le> m mod 100" "m mod 100 < 100"
    "0 \<le> n div 100" "n div 100 < 100" "0 \<le> n mod 100" "n mod 100 < 100"
    using assms by simp_all
  have "pad4 m @ xs \<le> pad4 n @ ys \<longleftrightarrow>
          m div 100 < n div 100
          \<or> m div 100 = n div 100
            \<and> (m mod 100 < n mod 100 \<or> m mod 100 = n mod 100 \<and> xs \<le> ys)"
    using b by (simp add: pad4_split pad2_le)
  then show ?thesis
    by (simp only: hundreds_order)
qed

lemma isoformat_le:
  assumes "valid_date a" and "valid_date b"
  shows "isoformat a \<le> isoformat b \<longleftrightarrow> a \<le> b"
proof -
  obtain y m d where a: "a = (y, m, d)" by (cases a)
  obtain y' m' d' where b: "b = (y', m', d')" by (cases b)
  have dim: "days_in_month k l \<le> 31" for k l
    by (simp add: days_in_month_def)
  have ra: "0 \<le> y" "y < 10000" "0 \<le> m" "m < 100" "0 \<le> d" "d < 100"
    using assms(1) dim [of y m] by (simp_all add: a valid_date_def)
  have rb: "0 \<le> y'" "y' < 10000" "0 \<le> m'" "m' < 100" "0 \<le> d'" "d' < 100"
    using assms(2) dim [of y' m'] by (simp_all add: b valid_date_def)
  have dd: "pad2 d \<le> pad2 d' \<longleftrightarrow> d \<le> d'"
    using pad2_le [OF ra(5,6) rb(5,6), of "[]" "[]"] by auto
  have "isoformat a \<le> isoformat b \<longleftrightarrow>
          y < y' \<or> y = y' \<and> (m < m' \<or> m = m' \<and> d \<le> d')"
    unfolding a b isoformat_def prod.case append_assoc
    unfolding pad4_le [OF ra(1,2) rb(1,2)] append_Cons append_Nil Cons_le_Cons
    unfolding pad2_le [OF ra(3,4) rb(3,4)]
    by (simp add: dd)
  also have "\<dots> \<longleftrightarrow> a \<le> b"
    unfolding a b by auto
  finally show ?thesis .
qed

lemma isoformat_less:
  assumes "valid_date a" and "valid_date b"
  shows "isoformat a < isoformat b \<longleftrightarrow> a < b"
  using isoformat_le [OF assms(2,1)] by (simp add: not_le [symmetric])

lemma strptime_valid: "strptime s = Some dt \<Longrightarrow> valid_date dt"
  by (auto simp: strptime_def split: list.splits if_splits)

lemma iso_textD:
  assumes "iso_text s"
  obtains dt where "strptime s = Some dt" and "valid_date dt" and "isoformat dt = s"
  using assms strptime_valid [of s]
  by (auto simp: iso_text_def split: option.splits)











section \<open>\<^verbatim>\<open>list\<close>\<close>

lemma list_cmd_all:
  assumes "task_table w = Some t"
  shows "list_cmd days True today w
       = (Inr (Listed (map summary_of (sort_key order_key (filter (\<lambda>r. \<not> completed r) (rows t))))), w)"
proof -
  from assms obtain db where db: "files w DB_FILE = Some db" "db ''task'' = Some t"
    and cols: "set task_columns \<subseteq> set (columns t)" and keys: "sqlite_keys t"
    by (rule task_tableD)
  have "prepare ''task'' [''id'', ''title'', ''due_date'', ''description'', ''completed''] db = Inr t"
    using db(2) cols by (intro prepare_task [of db t]) (auto simp: task_columns_def)
  then show ?thesis
    by (simp add: list_cmd_def get_db_connection_task [OF db(1)] select_incomplete_def
        conn_close_def)
qed

lemma list_cmd_due:
  assumes "task_table w = Some t" and "date_add today days = Inr cutoff"
  shows "list_cmd days False today w
       = (Inr (Listed (map summary_of (sort_key order_key
            (filter (\<lambda>r. \<not> completed r \<and>
                          (case due_date r of None \<Rightarrow> True | Some s \<Rightarrow> s \<le> isoformat cutoff))
               (rows t))))), w)"
proof -
  from assms(1) obtain db where db: "files w DB_FILE = Some db" "db ''task'' = Some t"
    and cols: "set task_columns \<subseteq> set (columns t)" and keys: "sqlite_keys t"
    by (rule task_tableD)
  have "prepare ''task'' [''id'', ''title'', ''due_date'', ''description'', ''completed''] db = Inr t"
    using db(2) cols by (intro prepare_task [of db t]) (auto simp: task_columns_def)
  then show ?thesis
    by (simp add: list_cmd_def get_db_connection_task [OF db(1)] select_incomplete_due_def
        assms(2) conn_close_def)
qed

lemma list_cmd_overflow:
  assumes "task_table w = Some t" and "date_add today days = Inl e"
  shows "fst (list_cmd days False today w) = Inl e"
proof -
  from assms(1) obtain db where db: "files w DB_FILE = Some db"
    by (rule task_tableD)
  show ?thesis
    by (simp add: list_cmd_def get_db_connection_task [OF db] assms(2))
qed

lemma iso_store_due:
  assumes "iso_store t" and "r \<in> set (rows t)" and "due_date r = Some s"
  shows "iso_text s"
  using assms by (auto simp: iso_store_def list_all_iff)





lemma calendar_key_mono:
  assumes "iso_store t" and "a \<in> set (rows t)" and "b \<in> set (rows t)"
    and "order_key a \<le> order_key b"
  shows "calendar_key (summary_of a) \<le> calendar_key (summary_of b)"
proof (cases "due_date a")
  case None
  show ?thesis
  proof (cases "due_date b")
    case nb: None
    with None assms(4) show ?thesis
      by (simp add: calendar_key_def summary_of_def calendar_date_def order_key_def)
  next
    case sb: (Some s')
    from iso_store_due [OF assms(1,3) sb] obtain dt'
      where "strptime s' = Some dt'"
      by (rule iso_textD)
    with None sb show ?thesis
      by (simp add: calendar_key_def summary_of_def calendar_date_def)
  qed
next
  case sa: (Some s)
  from assms(4) sa obtain s' where sb: "due_date b = Some s'"
    by (cases "due_date b") (auto simp: order_key_def)
  from iso_store_due [OF assms(1,2) sa] obtain dt
    where dt: "strptime s = Some dt" "valid_date dt" "isoformat dt = s"
    by (rule iso_textD)
  from iso_store_due [OF assms(1,3) sb] obtain dt'
    where dt': "strptime s' = Some dt'" "valid_date dt'" "isoformat dt' = s'"
    by (rule iso_textD)
  have "s < s' \<longleftrightarrow> dt < dt'" "s \<le> s' \<longleftrightarrow> dt \<le> dt'"
    using isoformat_less [OF dt(2) dt'(2)] isoformat_le [OF dt(2) dt'(2)] dt(3) dt'(3)
    by simp_all
  then show ?thesis
    using assms(4)
    by (simp add: calendar_key_def summary_of_def calendar_date_def order_key_def sa sb dt(1) dt'(1))
qed

lemma list_cmd_ListedD:
  assumes "task_table w = Some t" and "fst (list_cmd days show_all today w) = Inr (Listed rs)"
  obtains P where "rs = map summary_of (sort_key order_key (filter P (rows t)))"
proof (cases show_all)
  case True
  with list_cmd_all [OF assms(1), of days today] assms(2) that show ?thesis by auto
next
  case False
  show ?thesis
  proof (cases "date_add today days")
    case (Inl e)
    with list_cmd_overflow [OF assms(1) Inl] assms(2) False show ?thesis by simp
  next
    case (Inr cutoff)
    with list_cmd_due [OF assms(1) Inr] assms(2) False that show ?thesis by auto
  qed
qed

text \<open>
  Claim C8: every listing is ordered by due date, tasks without a due date first, and
  tasks with the same due date by key. The help and the error message of \<^verbatim>\<open>add\<close> ask for
  \<^verbatim>\<open>YYYY-MM-DD\<close>, but \<^verbatim>\<open>add\<close> accepts \<^verbatim>\<open>2025-2-14\<close>, drops the date it has parsed and
  stores the text, and \<^verbatim>\<open>ORDER BY\<close> compares the texts. After \<^verbatim>\<open>add\<close> of a task due on
  14 February, given as \<^verbatim>\<open>2025-2-14\<close>, of one due on 25 December and of one due on
  15 April, the listing has April, December, February: not the order of the due dates,
  which is February, April, December.
\<close>

theorem list_orders_unpadded_due_date_last:
  "(let w1 = snd (add_cmd ''card'' (Some ''2025-2-14'') None False False False None ''t0''
                   (store_of [] 0));
        w2 = snd (add_cmd ''gifts'' (Some ''2025-12-25'') None False False False None ''t1'' w1);
        w3 = snd (add_cmd ''tax'' (Some ''2025-04-15'') None False False False None ''t2'' w2)
    in fst (list_cmd 30 True (2025, 1, 1) w3)
         = Inr (Listed [(3, ''tax'', Some ''2025-04-15'', None),
                        (2, ''gifts'', Some ''2025-12-25'', None),
                        (1, ''card'', Some ''2025-2-14'', None)]))
   \<and> \<not> sorted (map calendar_key [(3, ''tax'', Some ''2025-04-15'', None),
                                  (2, ''gifts'', Some ''2025-12-25'', None),
                                  (1, ''card'', Some ''2025-2-14'', None)])
   \<and> sorted (map calendar_key [(1, ''card'', Some ''2025-2-14'', None),
                                (3, ''tax'', Some ''2025-04-15'', None),
                                (2, ''gifts'', Some ''2025-12-25'', None)])"
  by code_simp

text \<open>
  The defect is in what \<^verbatim>\<open>add\<close> accepts: on an available store whose due dates are all
  in zero-padded \<^verbatim>\<open>YYYY-MM-DD\<close> form, every listing is ordered by due date, tasks without
  a due date first, and tasks with the same due date by key.
\<close>

lemma list_cmd_calendar_order:
  assumes "task_table w = Some t" and "iso_store t"
    and "fst (list_cmd days show_all today w) = Inr (Listed rs)"
  shows "sorted (map calendar_key rs)"
proof -
  from assms(1,3) obtain P
    where rs: "rs = map summary_of (sort_key order_key (filter P (rows t)))"
    by (rule list_cmd_ListedD)
  let ?xs = "sort_key order_key (filter P (rows t))"
  have sub: "set ?xs \<subseteq> set (rows t)" by auto
  have "sorted (map order_key ?xs)" by (rule sorted_sort_key)
  then have "sorted_wrt (\<lambda>a b. order_key a \<le> order_key b) ?xs"
    by (simp add: sorted_map)
  then have "sorted_wrt (\<lambda>a b. calendar_key (summary_of a) \<le> calendar_key (summary_of b)) ?xs"
  proof (rule sorted_wrt_mono_rel [rotated])
    fix a b
    assume "a \<in> set ?xs" "b \<in> set ?xs" "order_key a \<le> order_key b"
    with sub show "calendar_key (summary_of a) \<le> calendar_key (summary_of b)"
      by (intro calendar_key_mono [OF assms(2)]) auto
  qed
  then show ?thesis
    by (simp add: rs sorted_map sorted_wrt_map)
qed

lemma list_cmd_calendar_order_example:
  "fst (list_cmd 30 True (2025, 1, 1) (store_of iso_rows 3))
     = Inr (Listed [(3, ''c'', None, None), (1, ''a'', Some ''2025-01-05'', None),
                    (2, ''b'', Some ''2025-03-01'', None)])
   \<and> sorted (map calendar_key
         [(3, ''c'', None, None), (1, ''a'', Some ''2025-01-05'', None),
          (2, ''b'', Some ''2025-03-01'', None)])"
proof -
  let ?t = "\<lparr>columns = task_columns, rows = iso_rows, seq = 3\<rparr>"
  have h1: "task_table (store_of iso_rows 3) = Some ?t"
    by (simp add: task_table_store_of sqlite_integer_def example_task_def iso_rows_def
        new_task_def)
  have h2: "iso_store ?t" by code_simp
  have h3: "fst (list_cmd 30 True (2025, 1, 1) (store_of iso_rows 3))
              = Inr (Listed [(3, ''c'', None, None), (1, ''a'', Some ''2025-01-05'', None),
                             (2, ''b'', Some ''2025-03-01'', None)])"
    by code_simp
  show ?thesis
    using list_cmd_calendar_order [OF h1 h2 h3] h3 by simp
qed

end
